theory Spec2Isabelle
  imports Main "HOL-Library.AList"
begin

section \<open>Values\<close>

text \<open>
  The descriptors of \<^verbatim>\<open>workflow_types.py\<close> hold dynamically typed option values:
  \<^verbatim>\<open>None\<close>, a string or an integer (the default task timeout is the integer 30).
\<close>

datatype scalar = PNone | PStr string | PInt int

definition digit_char :: "nat \<Rightarrow> char" where
  "digit_char d = (''0123456789'' ! (d mod 10))"

fun str_nat :: "nat \<Rightarrow> string" where
  "str_nat n = (if n < 10 then [digit_char n] else str_nat (n div 10) @ [digit_char (n mod 10)])"

declare str_nat.simps [simp del]

text \<open>Python's \<^verbatim>\<open>str(x)\<close>, which \<^verbatim>\<open>"%s" % x\<close> and \<^verbatim>\<open>"{0}".format(x)\<close> also apply.\<close>

definition py_str :: "scalar \<Rightarrow> string" where
  "py_str v =
     (case v of
        PNone \<Rightarrow> ''None''
      | PStr s \<Rightarrow> s
      | PInt i \<Rightarrow> (if i < 0 then ''-'' @ str_nat (nat (- i)) else str_nat (nat i)))"

text \<open>
  Modelled from the spec: \<^verbatim>\<open>utils.str_or_NONE\<close> is imported by the file and is not part
  of it. Section 6 of the specification: scalar fields are transmitted as their string
  form, and null becomes an explicit marker string instead of being left out.
\<close>

definition str_or_NONE :: "scalar \<Rightarrow> string" where
  "str_or_NONE v = (if v = PNone then ''NONE'' else py_str v)"

text \<open>
  Values of a wire map: a scalar, or a nested map literal such as
  \<^verbatim>\<open>{'name': ...}\<close>. A Python dict is an association list with distinct keys, in
  insertion order; \<^verbatim>\<open>d[k] = v\<close> is \<^const>\<open>AList.update\<close>.
\<close>

datatype pyval = Scalar scalar | Dict "(string \<times> scalar) list"

type_synonym dict = "(string \<times> pyval) list"

text \<open>\<^verbatim>\<open>d.update(items)\<close>: the items are stored one after the other.\<close>

fun dict_update :: "dict \<Rightarrow> (string \<times> pyval) list \<Rightarrow> dict" where
  "dict_update d [] = d"
| "dict_update d ((k, v) # items) = dict_update (AList.update k v d) items"

text \<open>The positional and the keyword arguments of a call: Python's \<^verbatim>\<open>[args, kwargs]\<close>.\<close>

type_synonym payload = "scalar list \<times> (string \<times> scalar) list"

section \<open>Errors\<close>

text \<open>
  The exceptions the file raises or lets through. The string of \<open>TypeError\<close>,
  \<open>NotImplementedError\<close> and \<open>RuntimeError\<close> is the fixed part of the message; the
  string of \<open>AttributeError\<close> names the attribute whose lookup failed. \<open>Raised n\<close> is an
  exception that a collaborator outside the file raised.
\<close>

datatype error =
    TypeError string
  | NotImplementedError string
  | RuntimeError string
  | AttributeError string
  | Raised nat

section \<open>Data converters\<close>

text \<open>
  An object given as a data converter: an instance of \<^verbatim>\<open>JSONDataConverter\<close>, an instance of
  some other subclass of \<^verbatim>\<open>AbstractDataConverter\<close>, or any other object. Python's
  \<^verbatim>\<open>None\<close> is \<open>None\<close> of the option type.
\<close>

datatype pyobj = JSONDataConverter | Converter nat | Object nat

fun isinstance_AbstractDataConverter :: "pyobj \<Rightarrow> bool" where
  "isinstance_AbstractDataConverter JSONDataConverter = True"
| "isinstance_AbstractDataConverter (Converter n) = True"
| "isinstance_AbstractDataConverter (Object n) = False"

section \<open>The descriptors\<close>

record WorkflowType =
  wt_version :: scalar
  wt_name :: scalar
  wt_task_list :: scalar
  wt_child_policy :: scalar
  wt_execution_start_to_close_timeout :: scalar
  wt_task_start_to_close_timeout :: scalar
  wt_description :: scalar
  wt_skip_registration :: bool
  wt_workflow_id :: scalar
  wt_data_converter :: "pyobj option"

record ActivityType =
  at_version :: scalar
  at_name :: scalar
  at_task_list :: scalar
  at_heartbeat_timeout :: scalar
  at_schedule_to_start_timeout :: scalar
  at_start_to_close_timeout :: scalar
  at_schedule_to_close_timeout :: scalar
  at_description :: scalar
  at_skip_registration :: bool
  at_data_converter :: "pyobj option"

text \<open>\<^verbatim>\<open>WorkflowExecution(workflow_id, run_id)\<close> is the pair of the two.\<close>

type_synonym WorkflowExecution = "scalar \<times> scalar"

record SignalType =
  st_name :: scalar
  st_data_converter :: "pyobj option"
  st_workflow_execution :: "WorkflowExecution option"

text \<open>
  The local handle that \<^verbatim>\<open>_class(WorkflowExecution(...))\<close> builds, with the converter
  the caller stores in it afterwards. A class and an instance are known by identity.
\<close>

record workflow_instance =
  wi_class :: nat
  wi_workflow_execution :: WorkflowExecution
  wi_data_converter :: "pyobj option"

section \<open>Collaborators\<close>

text \<open>
  Modelled from the spec: the modules \<^verbatim>\<open>constants\<close>, \<^verbatim>\<open>data_converter\<close> and
  \<^verbatim>\<open>context\<close> and the worker and decider objects are not part of the file. What it reads
  from them is a parameter: the two constants, the outcome of a converter's
  \<^verbatim>\<open>dumps\<close> (an exception or the serialized text) and the execution identity that the
  worker's start operation returns.
\<close>

record env =
  USE_WORKER_TASK_LIST :: scalar
  CHILD_TERMINATE :: scalar
  dumps :: "pyobj \<Rightarrow> payload \<Rightarrow> nat + string"
  start_workflow_execution :: "WorkflowType \<Rightarrow> payload \<Rightarrow> WorkflowExecution"

record worker =
  domain :: scalar

record decider =
  execution_started :: bool
  task_list :: scalar

text \<open>
  Modelled from the spec: the context classes of the module \<^verbatim>\<open>context\<close> are not part of
  the file. Section 6 of the specification: the active context is a Start, a Decision or
  an Activity context; it gives access to the worker or the decider, to the instance that
  is executing and to the per-call option overrides. \<open>kind\<close> is what the
  \<^verbatim>\<open>isinstance\<close> tests of the file see; \<open>workflow\<close> is the instance that is
  executing, if any.
\<close>

datatype context_kind = StartWorkflowContext | DecisionContext | ActivityContext | OtherContext

record execution_context =
  kind :: context_kind
  ctx_worker :: worker
  ctx_decider :: decider
  workflow :: "nat option"
  workflow_options_overrides :: dict
  activity_options_overrides :: dict

text \<open>
  Modelled from the spec: \<^verbatim>\<open>context.get_context\<close> is imported by the file and is not
  part of it. It returns the active context; outside every context it raises
  \<^verbatim>\<open>AttributeError\<close>, which is what \<^verbatim>\<open>ActivityType.__call__\<close> catches
  ("not in context").
\<close>

definition get_context :: "execution_context option \<Rightarrow> error + execution_context" where
  "get_context ambient =
     (case ambient of None \<Rightarrow> Inl (AttributeError ''context'') | Some c \<Rightarrow> Inr c)"

text \<open>
  The operations the file delegates to the worker or the decider, with their arguments,
  and what an invocation returns: nothing, a local handle, or whatever the collaborator
  returned for the request.
\<close>

datatype request =
    StartWorkflowExecution WorkflowType payload
  | ContinueAsNewWorkflowExecution dict
  | HandleStartChildWorkflowExecution WorkflowType workflow_instance payload
  | HandleExecuteActivity ActivityType dict payload
  | SignalWorkflowExecutionOp scalar scalar scalar scalar string

datatype retval = RNone | RInstance workflow_instance | RReturned request

type_synonym outcome = "request list \<times> (error + retval)"

text \<open>\<^verbatim>\<open>converter.dumps(input)\<close>, where the converter may be \<^verbatim>\<open>None\<close>.\<close>

definition call_dumps :: "env \<Rightarrow> pyobj option \<Rightarrow> payload \<Rightarrow> error + string" where
  "call_dumps E converter input =
     (case converter of
        None \<Rightarrow> Inl (AttributeError ''dumps'')
      | Some c \<Rightarrow> (case dumps E c input of Inl n \<Rightarrow> Inl (Raised n) | Inr s \<Rightarrow> Inr s))"

section \<open>WorkflowType\<close>

definition continue_as_new_keys :: "string list" where
  "continue_as_new_keys =
     [''task_start_to_close_timeout'', ''child_policy'', ''task_list'',
      ''execution_start_to_close_timeout'', ''version'', ''input'']"

text \<open>The setter of the \<^verbatim>\<open>data_converter\<close> property.\<close>

definition WorkflowType_set_data_converter ::
    "WorkflowType \<Rightarrow> pyobj option \<Rightarrow> error + WorkflowType" where
  "WorkflowType_set_data_converter self converter =
     (case converter of
        None \<Rightarrow> Inr (self\<lparr>wt_data_converter := Some JSONDataConverter\<rparr>)
      | Some c \<Rightarrow>
          (if isinstance_AbstractDataConverter c
           then Inr (self\<lparr>wt_data_converter := Some c\<rparr>)
           else Inl (TypeError ''Converter must be a subclass of AbstractDataConverter'')))"

text \<open>
  \<^verbatim>\<open>__init__\<close>: the fields are stored, and the converter goes through the setter last.
  Before that the object has no converter at all.
\<close>

definition WorkflowType_init ::
    "scalar \<Rightarrow> scalar \<Rightarrow> scalar \<Rightarrow> scalar \<Rightarrow> scalar \<Rightarrow> scalar \<Rightarrow> scalar \<Rightarrow> pyobj option \<Rightarrow> bool
      \<Rightarrow> error + WorkflowType" where
  "WorkflowType_init version execution_start_to_close_timeout task_list'
      task_start_to_close_timeout child_policy description name data_converter skip_registration =
     WorkflowType_set_data_converter
       \<lparr>wt_version = version, wt_name = name, wt_task_list = task_list',
        wt_child_policy = child_policy,
        wt_execution_start_to_close_timeout = execution_start_to_close_timeout,
        wt_task_start_to_close_timeout = task_start_to_close_timeout,
        wt_description = description, wt_skip_registration = skip_registration,
        wt_workflow_id = PNone, wt_data_converter = None\<rparr>
       data_converter"

text \<open>The constructor with every optional argument left at its default.\<close>

definition WorkflowType_init_defaults :: "env \<Rightarrow> scalar \<Rightarrow> scalar \<Rightarrow> error + WorkflowType" where
  "WorkflowType_init_defaults E version execution_start_to_close_timeout =
     WorkflowType_init version execution_start_to_close_timeout (USE_WORKER_TASK_LIST E)
       (PInt 30) (CHILD_TERMINATE E) (PStr []) PNone None False"

definition WorkflowType_to_decision_dict ::
    "env \<Rightarrow> execution_context option \<Rightarrow> WorkflowType \<Rightarrow> payload \<Rightarrow> scalar \<Rightarrow> scalar \<Rightarrow> scalar
      \<Rightarrow> error + dict" where
  "WorkflowType_to_decision_dict E ambient self input workflow_id worker_task_list domain' =
     (let task_list' =
            (if wt_task_list self = USE_WORKER_TASK_LIST E then worker_task_list
             else wt_task_list self)
      in case call_dumps E (wt_data_converter self) input of
           Inl e \<Rightarrow> Inl e
         | Inr serialized_input \<Rightarrow>
            (let decision_dict =
                   [(''workflow_type'',
                       Dict [(''version'', wt_version self), (''name'', wt_name self)]),
                    (''task_list'', Dict [(''name'', PStr (str_or_NONE task_list'))]),
                    (''child_policy'', Scalar (PStr (str_or_NONE (wt_child_policy self)))),
                    (''execution_start_to_close_timeout'',
                       Scalar (PStr (str_or_NONE (wt_execution_start_to_close_timeout self)))),
                    (''task_start_to_close_timeout'',
                       Scalar (PStr (str_or_NONE (wt_task_start_to_close_timeout self)))),
                    (''input'', Scalar (PStr serialized_input))];
                 decision_dict =
                   (if workflow_id \<noteq> PNone \<and> wt_workflow_id self = PNone
                    then AList.update ''workflow_id'' (Scalar workflow_id) decision_dict
                    else decision_dict);
                 decision_dict =
                   (if domain' \<noteq> PNone
                    then AList.update ''domain'' (Scalar domain') decision_dict
                    else decision_dict)
             in case get_context ambient of
                  Inl e \<Rightarrow> Inl e
                | Inr context \<Rightarrow>
                    Inr (dict_update (dict_update [] decision_dict)
                           (workflow_options_overrides context))))"

text \<open>
  The loop of \<^verbatim>\<open>to_continue_as_new_dict\<close>: a key the decision map lacks raises
  \<^verbatim>\<open>KeyError\<close>, which the loop swallows.
\<close>

fun copy_keys :: "string list \<Rightarrow> dict \<Rightarrow> dict \<Rightarrow> dict" where
  "copy_keys [] decision_dict continue_as_new_dict = continue_as_new_dict"
| "copy_keys (key # keys) decision_dict continue_as_new_dict =
     copy_keys keys decision_dict
       (case map_of decision_dict key of
          None \<Rightarrow> continue_as_new_dict
        | Some v \<Rightarrow> AList.update key v continue_as_new_dict)"

definition WorkflowType_to_continue_as_new_dict ::
    "env \<Rightarrow> execution_context option \<Rightarrow> WorkflowType \<Rightarrow> payload \<Rightarrow> scalar \<Rightarrow> error + dict" where
  "WorkflowType_to_continue_as_new_dict E ambient self input worker_task_list =
     (case WorkflowType_to_decision_dict E ambient self input PNone worker_task_list PNone of
        Inl e \<Rightarrow> Inl e
      | Inr decision_dict \<Rightarrow> Inr (copy_keys continue_as_new_keys decision_dict []))"

text \<open>
  \<^verbatim>\<open>__call__\<close>. The first argument is the pair of the implementing class and the
  instance the call was made on (\<open>None\<close> when it was made on the class).
\<close>

definition WorkflowType_call ::
    "env \<Rightarrow> execution_context option \<Rightarrow> WorkflowType \<Rightarrow> nat \<times> nat option \<Rightarrow> payload \<Rightarrow> outcome" where
  "WorkflowType_call E ambient self class_and_instance input =
     (let (class', instance') = class_and_instance
      in case get_context ambient of
           Inl e \<Rightarrow> ([], Inl e)
         | Inr context \<Rightarrow>
            (if kind context = StartWorkflowContext then
               (let workflow_instance =
                      \<lparr>wi_class = class',
                       wi_workflow_execution = start_workflow_execution E self input,
                       wi_data_converter = wt_data_converter self\<rparr>
                in ([StartWorkflowExecution self input], Inr (RInstance workflow_instance)))
             else if kind context = DecisionContext then
               (if execution_started (ctx_decider context) then
                  (if workflow context = instance' then
                     (case WorkflowType_to_continue_as_new_dict E ambient self input
                             (task_list (ctx_decider context)) of
                        Inl e \<Rightarrow> ([], Inl e)
                      | Inr continue_as_new_dict \<Rightarrow>
                          ([ContinueAsNewWorkflowExecution continue_as_new_dict],
                           Inr (RReturned (ContinueAsNewWorkflowExecution continue_as_new_dict))))
                   else
                     (let workflow_instance =
                            \<lparr>wi_class = class', wi_workflow_execution = (PNone, PNone),
                             wi_data_converter = wt_data_converter self\<rparr>;
                          future = HandleStartChildWorkflowExecution self workflow_instance input
                      in ([future], Inr (RReturned future))))
                else ([], Inr RNone))
             else ([], Inl (NotImplementedError ''Unsupported context''))))"

text \<open>\<^verbatim>\<open>__hash__\<close>, over Python's built-in \<^verbatim>\<open>hash\<close> of a string.\<close>

definition WorkflowType_hash :: "(string \<Rightarrow> int) \<Rightarrow> WorkflowType \<Rightarrow> int" where
  "WorkflowType_hash hash self = hash (py_str (wt_name self) @ py_str (wt_version self))"

section \<open>ActivityType\<close>

definition ActivityType_init ::
    "scalar \<Rightarrow> scalar \<Rightarrow> scalar \<Rightarrow> scalar \<Rightarrow> scalar \<Rightarrow> scalar \<Rightarrow> scalar \<Rightarrow> scalar \<Rightarrow> pyobj option
      \<Rightarrow> bool \<Rightarrow> ActivityType" where
  "ActivityType_init version name task_list' heartbeat_timeout schedule_to_start_timeout
      start_to_close_timeout schedule_to_close_timeout description data_converter
      skip_registration =
     \<lparr>at_version = version, at_name = name, at_task_list = task_list',
      at_heartbeat_timeout = heartbeat_timeout,
      at_schedule_to_start_timeout = schedule_to_start_timeout,
      at_start_to_close_timeout = start_to_close_timeout,
      at_schedule_to_close_timeout = schedule_to_close_timeout,
      at_description = description, at_skip_registration = skip_registration,
      at_data_converter =
        (case data_converter of None \<Rightarrow> Some JSONDataConverter | Some c \<Rightarrow> Some c)\<rparr>"

text \<open>
  \<^verbatim>\<open>_reset_name(cls, func, activity_name_prefix)\<close>, on the names of the class and of
  the function.
\<close>

definition ActivityType_reset_name :: "ActivityType \<Rightarrow> string \<Rightarrow> string \<Rightarrow> scalar \<Rightarrow> ActivityType" where
  "ActivityType_reset_name self cls_name func_name activity_name_prefix =
     (let name' = py_str activity_name_prefix @ func_name;
          name' =
            (if at_name self = PNone then cls_name @ ''.'' @ func_name
             else py_str activity_name_prefix @ py_str (at_name self))
      in self\<lparr>at_name := PStr name'\<rparr>)"

definition ActivityType_to_decision_dict :: "ActivityType \<Rightarrow> dict" where
  "ActivityType_to_decision_dict self =
     [(''activity_type_version'', Scalar (at_version self)),
      (''activity_type_name'', Scalar (at_name self)),
      (''task_list'', Dict [(''name'', PStr (str_or_NONE (at_task_list self)))]),
      (''heartbeat_timeout'', Scalar (PStr (str_or_NONE (at_heartbeat_timeout self)))),
      (''schedule_to_start_timeout'',
         Scalar (PStr (str_or_NONE (at_schedule_to_start_timeout self)))),
      (''start_to_close_timeout'', Scalar (PStr (str_or_NONE (at_start_to_close_timeout self)))),
      (''schedule_to_close_timeout'',
         Scalar (PStr (str_or_NONE (at_schedule_to_close_timeout self))))]"

text \<open>
  \<^verbatim>\<open>__call__\<close>, after the lookup of the context: \<open>None\<close> is the initial value that
  stays when the lookup raised \<^verbatim>\<open>AttributeError\<close>.
\<close>

definition ActivityType_call_in ::
    "execution_context option \<Rightarrow> ActivityType \<Rightarrow> payload \<Rightarrow> outcome" where
  "ActivityType_call_in context self input =
     (case context of
        None \<Rightarrow>
          ([], Inl (TypeError ''ActivityType can only be called in the decision context''))
      | Some c \<Rightarrow>
         (if kind c \<noteq> DecisionContext then
            ([], Inl (TypeError ''ActivityType can only be called in the decision context''))
          else
            (let decision_dict = ActivityType_to_decision_dict self;
                 decision_dict' =
                   dict_update (dict_update [] decision_dict) (activity_options_overrides c);
                 r = HandleExecuteActivity self decision_dict' input
             in ([r], Inr (RReturned r)))))"

definition ActivityType_call :: "execution_context option \<Rightarrow> ActivityType \<Rightarrow> payload \<Rightarrow> outcome" where
  "ActivityType_call ambient self input =
     (case get_context ambient of
        Inl (AttributeError a) \<Rightarrow> ActivityType_call_in None self input
      | Inl e \<Rightarrow> ([], Inl e)
      | Inr c \<Rightarrow> ActivityType_call_in (Some c) self input)"

section \<open>SignalType\<close>

definition SignalType_init ::
    "scalar \<Rightarrow> pyobj option \<Rightarrow> WorkflowExecution option \<Rightarrow> SignalType" where
  "SignalType_init name data_converter workflow_execution =
     \<lparr>st_name = name, st_data_converter = data_converter, st_workflow_execution = None\<rparr>"

definition SignalType_call :: "env \<Rightarrow> execution_context option \<Rightarrow> SignalType \<Rightarrow> payload \<Rightarrow> outcome" where
  "SignalType_call E ambient self input =
     (case call_dumps E (st_data_converter self) input of
        Inl e \<Rightarrow> ([], Inl e)
      | Inr serialized_input \<Rightarrow>
         (let workflow_execution = st_workflow_execution self
          in case get_context ambient of
               Inl e \<Rightarrow> ([], Inl e)
             | Inr context \<Rightarrow>
                (if \<not> (kind context = StartWorkflowContext \<or> kind context = ActivityContext)
                 then ([], Inl (RuntimeError ''Unsupported context for this call''))
                 else
                   (case workflow_execution of
                      None \<Rightarrow> ([], Inl (AttributeError ''workflow_id''))
                    | Some (workflow_id, run_id) \<Rightarrow>
                        ([SignalWorkflowExecutionOp (domain (ctx_worker context)) (st_name self)
                            workflow_id run_id serialized_input],
                         Inr RNone)))))"

section \<open>Example values\<close>

text \<open>
  A concrete environment and concrete descriptors and contexts, on which the theorems
  below are instantiated.
\<close>

definition example_env :: env where
  "example_env =
     \<lparr>USE_WORKER_TASK_LIST = PStr ''USE_WORKER_TASK_LIST'', CHILD_TERMINATE = PStr ''TERMINATE'',
      dumps = (\<lambda>c input. Inr ''[[], {}]''),
      start_workflow_execution = (\<lambda>self input. (PStr ''wf-1'', PStr ''run-1''))\<rparr>"

definition example_WorkflowType :: "scalar \<Rightarrow> scalar \<Rightarrow> scalar \<Rightarrow> WorkflowType" where
  "example_WorkflowType name version task_list' =
     \<lparr>wt_version = version, wt_name = name, wt_task_list = task_list',
      wt_child_policy = PStr ''TERMINATE'',
      wt_execution_start_to_close_timeout = PInt 3600,
      wt_task_start_to_close_timeout = PInt 30,
      wt_description = PStr [], wt_skip_registration = False,
      wt_workflow_id = PNone, wt_data_converter = Some JSONDataConverter\<rparr>"

definition example_context :: "context_kind \<Rightarrow> bool \<Rightarrow> dict \<Rightarrow> execution_context" where
  "example_context k started overrides =
     \<lparr>kind = k, ctx_worker = \<lparr>domain = PStr ''dom-1''\<rparr>,
      ctx_decider = \<lparr>execution_started = started, task_list = PStr ''tl-A''\<rparr>,
      workflow = Some 1, workflow_options_overrides = overrides,
      activity_options_overrides = []\<rparr>"

definition example_ActivityType :: "scalar \<Rightarrow> ActivityType" where
  "example_ActivityType name =
     ActivityType_init (PStr ''1.0'') name (PStr ''USE_WORKER_TASK_LIST'') PNone PNone PNone PNone
       PNone None False"

section \<open>Dictionaries\<close>

lemma map_of_dict_update: "map_of (dict_update d items) = map_of d ++ map_of (rev items)"
proof (induction items arbitrary: d)
  case Nil
  show ?case by simp
next
  case (Cons kv items)
  obtain k v where kv: "kv = (k, v)" by (cases kv)
  have "map_of (dict_update d (kv # items)) = map_of (AList.update k v d) ++ map_of (rev items)"
    using Cons.IH [of "AList.update k v d"] kv by simp
  also have "\<dots> = map_of d ++ map_of (rev (kv # items))"
    by (simp add: kv update_conv' map_add_upd_left fun_eq_iff map_add_def split: option.splits)
  finally show ?case .
qed

lemma map_of_rev_None: "map_of items k = None \<Longrightarrow> map_of (rev items) k = None"
  by (simp add: map_of_eq_None_iff)

lemma map_of_copy_keys:
  "map_of (copy_keys keys d acc) = map_of acc ++ (map_of d |` set keys)"
proof (induction keys arbitrary: acc)
  case Nil
  show ?case by simp
next
  case (Cons key keys)
  show ?case
  proof (cases "map_of d key")
    case None
    then have "map_of d |` set (key # keys) = map_of d |` set keys"
      by (auto simp: restrict_map_def fun_eq_iff)
    with None Cons.IH [of acc] show ?thesis by simp
  next
    case (Some v)
    have "map_of (copy_keys (key # keys) d acc) =
            map_of (copy_keys keys d (AList.update key v acc))"
      using Some by simp
    also have "\<dots> = map_of (AList.update key v acc) ++ (map_of d |` set keys)"
      by (rule Cons.IH)
    also have "\<dots> = map_of acc ++ (map_of d |` set (key # keys))"
      using Some
      by (auto simp: update_conv' fun_eq_iff map_add_def restrict_map_def split: option.splits)
    finally show ?thesis .
  qed
qed

lemma keys_copy_keys: "fst ` set (copy_keys keys d []) = set keys \<inter> fst ` set d"
proof -
  have "dom (map_of (copy_keys keys d [])) = dom (map_of d |` set keys)"
    by (simp add: map_of_copy_keys)
  then show ?thesis by (simp add: dom_map_of_conv_image_fst Int_commute)
qed

section \<open>SignalType: construction\<close>

text \<open>
  C8. Whatever is passed for the target execution of the constructor of a SignalType,
  the \<^verbatim>\<open>workflow_execution\<close> field of the new descriptor is unset: the argument is
  not stored, the name and the converter argument are.
\<close>

theorem C8_signal_target_unset:
  "st_workflow_execution (SignalType_init name data_converter workflow_execution) = None \<and>
   SignalType_init name data_converter workflow_execution =
     SignalType_init name data_converter None \<and>
   st_name (SignalType_init name data_converter workflow_execution) = name"
  by (simp add: SignalType_init_def)

section \<open>ActivityType: the resolved name\<close>

text \<open>
  C9. \<^verbatim>\<open>_reset_name(cls, func, prefix)\<close> of an ActivityType changes the name and nothing
  else. When the name is unset, the new name is the class name, a dot and the function
  name, without the prefix; when it is set, the new name is the prefix followed by the
  old name.
\<close>

theorem C9_activity_reset_name:
  "ActivityType_reset_name self cls_name func_name prefix =
     self\<lparr>at_name :=
       (if at_name self = PNone then PStr (cls_name @ ''.'' @ func_name)
        else PStr (py_str prefix @ py_str (at_name self)))\<rparr> \<and>
   at_name (ActivityType_reset_name (self\<lparr>at_name := PNone\<rparr>) cls_name func_name prefix) =
     PStr (cls_name @ ''.'' @ func_name) \<and>
   at_name (ActivityType_reset_name (self\<lparr>at_name := PStr n\<rparr>) cls_name func_name (PStr p)) =
     PStr (p @ n)"
  by (simp add: ActivityType_reset_name_def py_str_def)

section \<open>ActivityType: invocation\<close>

text \<open>
  C7. An ActivityType can be invoked in a Decision context only. With no active context
  and in a context of any other kind (a Start context among them) the invocation raises
  the same \<^verbatim>\<open>TypeError\<close> and delegates nothing; in a Decision context it does not
  fail and delegates one execute-activity request, whose result it returns.
\<close>

theorem C7_activity_only_in_decision:
  "(ambient = None \<or> (\<exists>c. ambient = Some c \<and> kind c \<noteq> DecisionContext) \<longrightarrow>
      ActivityType_call ambient self input =
        ([], Inl (TypeError ''ActivityType can only be called in the decision context''))) \<and>
   ((\<exists>c. ambient = Some c \<and> kind c = DecisionContext) \<longrightarrow>
      (\<exists>r. ActivityType_call ambient self input = ([r], Inr (RReturned r))))"
  by (auto simp: ActivityType_call_def ActivityType_call_in_def get_context_def Let_def)

theorem C7_witness:
  "ActivityType_call None (example_ActivityType PNone) ([], []) =
     ([], Inl (TypeError ''ActivityType can only be called in the decision context'')) \<and>
   kind (example_context StartWorkflowContext True []) \<noteq> DecisionContext \<and>
   ActivityType_call (Some (example_context StartWorkflowContext True []))
       (example_ActivityType PNone) ([], []) =
     ([], Inl (TypeError ''ActivityType can only be called in the decision context'')) \<and>
   (\<exists>r. ActivityType_call (Some (example_context DecisionContext True []))
       (example_ActivityType PNone) ([], []) = ([r], Inr (RReturned r)))"
proof -
  have k: "kind (example_context StartWorkflowContext True []) \<noteq> DecisionContext"
    by (simp add: example_context_def)
  have d: "kind (example_context DecisionContext True []) = DecisionContext"
    by (simp add: example_context_def)
  show ?thesis
    using k d
      C7_activity_only_in_decision [of None "example_ActivityType PNone" "([], [])"]
      C7_activity_only_in_decision [of "Some (example_context StartWorkflowContext True [])"
        "example_ActivityType PNone" "([], [])"]
      C7_activity_only_in_decision [of "Some (example_context DecisionContext True [])"
        "example_ActivityType PNone" "([], [])"]
    by simp
qed

section \<open>WorkflowType: hashing\<close>

text \<open>
  C2, as amended. The hash of a WorkflowType is the hash of the string formed by the name
  followed by the version. Two descriptors whose name and version match exactly have the
  same hash, and so do two descriptors for which that string is the same. The converse
  fails: name ab with version c and name a with version bc differ in both fields and
  have the same hash, whatever the hash function of strings is.
\<close>

theorem C2_equal_fields_equal_hash:
  "(wt_name a = wt_name b \<and> wt_version a = wt_version b \<longrightarrow>
      WorkflowType_hash hash a = WorkflowType_hash hash b) \<and>
   (py_str (wt_name a) @ py_str (wt_version a) = py_str (wt_name b) @ py_str (wt_version b) \<longrightarrow>
      WorkflowType_hash hash a = WorkflowType_hash hash b)"
  by (simp add: WorkflowType_hash_def)

theorem C2_witness:
  "wt_name (example_WorkflowType (PStr ''Flow'') (PStr ''1.0'') (PStr ''tl-A'')) =
     wt_name (example_WorkflowType (PStr ''Flow'') (PStr ''1.0'') (PStr ''tl-B'')) \<and>
   wt_version (example_WorkflowType (PStr ''Flow'') (PStr ''1.0'') (PStr ''tl-A'')) =
     wt_version (example_WorkflowType (PStr ''Flow'') (PStr ''1.0'') (PStr ''tl-B'')) \<and>
   example_WorkflowType (PStr ''Flow'') (PStr ''1.0'') (PStr ''tl-A'') \<noteq>
     example_WorkflowType (PStr ''Flow'') (PStr ''1.0'') (PStr ''tl-B'') \<and>
   WorkflowType_hash (\<lambda>s. int (length s))
       (example_WorkflowType (PStr ''Flow'') (PStr ''1.0'') (PStr ''tl-A'')) =
     WorkflowType_hash (\<lambda>s. int (length s))
       (example_WorkflowType (PStr ''Flow'') (PStr ''1.0'') (PStr ''tl-B''))"
proof -
  let ?a = "example_WorkflowType (PStr ''Flow'') (PStr ''1.0'') (PStr ''tl-A'')"
  let ?b = "example_WorkflowType (PStr ''Flow'') (PStr ''1.0'') (PStr ''tl-B'')"
  have n: "wt_name ?a = wt_name ?b" and v: "wt_version ?a = wt_version ?b"
    by (simp_all add: example_WorkflowType_def)
  have ne: "?a \<noteq> ?b"
    by (simp add: example_WorkflowType_def)
  from C2_equal_fields_equal_hash [of ?a ?b "\<lambda>s. int (length s)"] n v
  have "WorkflowType_hash (\<lambda>s. int (length s)) ?a = WorkflowType_hash (\<lambda>s. int (length s)) ?b"
    by blast
  with n v ne show ?thesis by simp
qed

theorem C2_counterexample:
  "(\<forall>hash. WorkflowType_hash hash (example_WorkflowType (PStr ''ab'') (PStr ''c'') PNone) =
            WorkflowType_hash hash (example_WorkflowType (PStr ''a'') (PStr ''bc'') PNone)) \<and>
   wt_name (example_WorkflowType (PStr ''ab'') (PStr ''c'') PNone) \<noteq>
     wt_name (example_WorkflowType (PStr ''a'') (PStr ''bc'') PNone) \<and>
   wt_version (example_WorkflowType (PStr ''ab'') (PStr ''c'') PNone) \<noteq>
     wt_version (example_WorkflowType (PStr ''a'') (PStr ''bc'') PNone)"
  by (simp add: WorkflowType_hash_def example_WorkflowType_def py_str_def)

section \<open>The data converter of a descriptor\<close>

lemma WorkflowType_set_data_converter_Inr:
  "WorkflowType_set_data_converter self converter = Inr self' \<Longrightarrow>
     \<exists>c. wt_data_converter self' = Some c \<and> isinstance_AbstractDataConverter c \<and>
         self' = self\<lparr>wt_data_converter := Some c\<rparr> \<and>
         c = (case converter of None \<Rightarrow> JSONDataConverter | Some c' \<Rightarrow> c')"
  by (auto simp: WorkflowType_set_data_converter_def split: option.splits if_splits)

lemma WorkflowType_set_data_converter_Inl:
  "(WorkflowType_set_data_converter self converter = Inl e) =
     ((\<exists>c. converter = Some c \<and> \<not> isinstance_AbstractDataConverter c) \<and>
      e = TypeError ''Converter must be a subclass of AbstractDataConverter'')"
  by (auto simp: WorkflowType_set_data_converter_def split: option.splits)

text \<open>
  C4, as amended. After the construction of a WorkflowType, and after every later
  assignment to its \<^verbatim>\<open>data_converter\<close> that returns, the field holds an instance of
  \<^verbatim>\<open>AbstractDataConverter\<close> and never \<^verbatim>\<open>None\<close>: \<^verbatim>\<open>None\<close> is replaced by the default
  JSON converter, another converter is stored as it is, and the construction or the
  assignment fails with \<^verbatim>\<open>TypeError\<close> exactly when the value is neither. The
  constructor of an ActivityType replaces \<^verbatim>\<open>None\<close> by the default JSON converter and
  stores any other value as it is, without a check.
\<close>

theorem C4_data_converter_binding:
  "(\<forall>self'. WorkflowType_init version timeout tlist task_timeout policy description name
               converter skip = Inr self' \<longrightarrow>
      (\<exists>c. wt_data_converter self' = Some c \<and> isinstance_AbstractDataConverter c \<and>
           c = (case converter of None \<Rightarrow> JSONDataConverter | Some c' \<Rightarrow> c'))) \<and>
   (\<forall>e. (WorkflowType_init version timeout tlist task_timeout policy description name
            converter skip = Inl e) =
      ((\<exists>c. converter = Some c \<and> \<not> isinstance_AbstractDataConverter c) \<and>
       e = TypeError ''Converter must be a subclass of AbstractDataConverter'')) \<and>
   (\<forall>self'. WorkflowType_set_data_converter self converter = Inr self' \<longrightarrow>
      (\<exists>c. self' = self\<lparr>wt_data_converter := Some c\<rparr> \<and> isinstance_AbstractDataConverter c \<and>
           c = (case converter of None \<Rightarrow> JSONDataConverter | Some c' \<Rightarrow> c'))) \<and>
   (\<forall>e. (WorkflowType_set_data_converter self converter = Inl e) =
      ((\<exists>c. converter = Some c \<and> \<not> isinstance_AbstractDataConverter c) \<and>
       e = TypeError ''Converter must be a subclass of AbstractDataConverter'')) \<and>
   at_data_converter (ActivityType_init a_version a_name a_tl hb s2s s2c sch2c a_description
       converter a_skip) =
     (case converter of None \<Rightarrow> Some JSONDataConverter | Some c \<Rightarrow> Some c)"
proof (intro conjI allI impI)
  fix self'
  assume "WorkflowType_init version timeout tlist task_timeout policy description name
            converter skip = Inr self'"
  then show "\<exists>c. wt_data_converter self' = Some c \<and> isinstance_AbstractDataConverter c \<and>
           c = (case converter of None \<Rightarrow> JSONDataConverter | Some c' \<Rightarrow> c')"
    unfolding WorkflowType_init_def
    by (blast dest: WorkflowType_set_data_converter_Inr)
next
  fix e
  show "(WorkflowType_init version timeout tlist task_timeout policy description name
            converter skip = Inl e) =
      ((\<exists>c. converter = Some c \<and> \<not> isinstance_AbstractDataConverter c) \<and>
       e = TypeError ''Converter must be a subclass of AbstractDataConverter'')"
    unfolding WorkflowType_init_def by (rule WorkflowType_set_data_converter_Inl)
next
  fix self'
  assume "WorkflowType_set_data_converter self converter = Inr self'"
  then show "\<exists>c. self' = self\<lparr>wt_data_converter := Some c\<rparr> \<and>
           isinstance_AbstractDataConverter c \<and>
           c = (case converter of None \<Rightarrow> JSONDataConverter | Some c' \<Rightarrow> c')"
    by (blast dest: WorkflowType_set_data_converter_Inr)
next
  fix e
  show "(WorkflowType_set_data_converter self converter = Inl e) =
      ((\<exists>c. converter = Some c \<and> \<not> isinstance_AbstractDataConverter c) \<and>
       e = TypeError ''Converter must be a subclass of AbstractDataConverter'')"
    by (rule WorkflowType_set_data_converter_Inl)
next
  show "at_data_converter (ActivityType_init a_version a_name a_tl hb s2s s2c sch2c
       a_description converter a_skip) =
     (case converter of None \<Rightarrow> Some JSONDataConverter | Some c \<Rightarrow> Some c)"
    by (simp add: ActivityType_init_def)
qed

lemma WorkflowType_init_defaults_example:
  "WorkflowType_init_defaults example_env (PStr ''1.0'') (PInt 3600) =
     Inr (example_WorkflowType PNone (PStr ''1.0'') (PStr ''USE_WORKER_TASK_LIST''))"
  by (simp add: WorkflowType_init_defaults_def WorkflowType_init_def
      WorkflowType_set_data_converter_def example_env_def example_WorkflowType_def)

theorem C4_witness:
  "WorkflowType_init_defaults example_env (PStr ''1.0'') (PInt 3600) =
     Inr (example_WorkflowType PNone (PStr ''1.0'') (PStr ''USE_WORKER_TASK_LIST'')) \<and>
   wt_data_converter (example_WorkflowType PNone (PStr ''1.0'') (PStr ''USE_WORKER_TASK_LIST'')) =
     Some JSONDataConverter \<and>
   WorkflowType_set_data_converter
       (example_WorkflowType PNone (PStr ''1.0'') (PStr ''USE_WORKER_TASK_LIST''))
       (Some (Converter 1)) =
     Inr ((example_WorkflowType PNone (PStr ''1.0'') (PStr ''USE_WORKER_TASK_LIST''))
            \<lparr>wt_data_converter := Some (Converter 1)\<rparr>) \<and>
   WorkflowType_set_data_converter
       (example_WorkflowType PNone (PStr ''1.0'') (PStr ''USE_WORKER_TASK_LIST''))
       (Some (Object 0)) =
     Inl (TypeError ''Converter must be a subclass of AbstractDataConverter'')"
proof -
  let ?wt = "example_WorkflowType PNone (PStr ''1.0'') (PStr ''USE_WORKER_TASK_LIST'')"
  have i: "WorkflowType_init (PStr ''1.0'') (PInt 3600) (PStr ''USE_WORKER_TASK_LIST'')
             (PInt 30) (PStr ''TERMINATE'') (PStr []) PNone None False = Inr ?wt"
    using WorkflowType_init_defaults_example
    by (simp add: WorkflowType_init_defaults_def example_env_def)
  have s: "WorkflowType_set_data_converter ?wt (Some (Converter 1)) =
             Inr (?wt\<lparr>wt_data_converter := Some (Converter 1)\<rparr>)"
    by (simp add: WorkflowType_set_data_converter_def)
  note t = C4_data_converter_binding [where version = "PStr ''1.0''" and timeout = "PInt 3600"
      and tlist = "PStr ''USE_WORKER_TASK_LIST''" and task_timeout = "PInt 30"
      and policy = "PStr ''TERMINATE''" and description = "PStr []" and name = PNone
      and converter = None and skip = False]
  note u = C4_data_converter_binding [where self = ?wt and converter = "Some (Object 0)"]
  from t i have "wt_data_converter ?wt = Some JSONDataConverter" by fastforce
  moreover from u
  have "WorkflowType_set_data_converter ?wt (Some (Object 0)) =
          Inl (TypeError ''Converter must be a subclass of AbstractDataConverter'')"
    by simp
  ultimately show ?thesis
    using WorkflowType_init_defaults_example s by simp
qed

theorem C4_counterexample:
  "at_data_converter
     (ActivityType_init (PStr ''1.0'') PNone (PStr ''tl-A'') PNone PNone PNone PNone PNone
        (Some (Object 0)) False) = Some (Object 0) \<and>
   \<not> isinstance_AbstractDataConverter (Object 0) \<and>
   st_data_converter (SignalType_init (PStr ''sig'') None None) = None \<and>
   st_data_converter (SignalType_init (PStr ''sig'') (Some (Object 0)) None) = Some (Object 0)"
  by (simp add: ActivityType_init_def SignalType_init_def)

section \<open>WorkflowType: the decision map\<close>

lemma call_dumps_Inl:
  "call_dumps E converter input = Inl e \<Longrightarrow> e = AttributeError ''dumps'' \<or> (\<exists>n. e = Raised n)"
  by (auto simp: call_dumps_def split: option.splits sum.splits)

lemma to_decision_dict_Inl:
  "WorkflowType_to_decision_dict E (Some c) self input workflow_id worker_task_list domain' = Inl e
     \<Longrightarrow> call_dumps E (wt_data_converter self) input = Inl e"
  by (auto simp: WorkflowType_to_decision_dict_def get_context_def Let_def split: sum.splits)

lemma to_decision_dict_Inr:
  "call_dumps E (wt_data_converter self) input = Inr s \<Longrightarrow>
     \<exists>d. WorkflowType_to_decision_dict E (Some c) self input workflow_id worker_task_list domain'
           = Inr d"
  by (simp add: WorkflowType_to_decision_dict_def get_context_def Let_def)

lemma to_continue_as_new_dict_Inl:
  "WorkflowType_to_continue_as_new_dict E (Some c) self input worker_task_list = Inl e
     \<Longrightarrow> call_dumps E (wt_data_converter self) input = Inl e"
  by (auto simp: WorkflowType_to_continue_as_new_dict_def split: sum.splits
      dest: to_decision_dict_Inl)

section \<open>WorkflowType: invocation\<close>

lemma WorkflowType_call_Decision:
  "kind c = DecisionContext \<Longrightarrow>
     WorkflowType_call E (Some c) self (class', instance') input =
       (if execution_started (ctx_decider c) then
          (if workflow c = instance' then
             (case WorkflowType_to_continue_as_new_dict E (Some c) self input
                     (task_list (ctx_decider c)) of
                Inl e \<Rightarrow> ([], Inl e)
              | Inr d \<Rightarrow>
                  ([ContinueAsNewWorkflowExecution d],
                   Inr (RReturned (ContinueAsNewWorkflowExecution d))))
           else
             ([HandleStartChildWorkflowExecution self
                 \<lparr>wi_class = class', wi_workflow_execution = (PNone, PNone),
                  wi_data_converter = wt_data_converter self\<rparr> input],
              Inr (RReturned (HandleStartChildWorkflowExecution self
                 \<lparr>wi_class = class', wi_workflow_execution = (PNone, PNone),
                  wi_data_converter = wt_data_converter self\<rparr> input))))
        else ([], Inr RNone))"
  by (simp add: WorkflowType_call_def get_context_def Let_def)

lemma WorkflowType_call_unsupported:
  "(snd (WorkflowType_call E ambient self class_and_instance input) =
      Inl (NotImplementedError ''Unsupported context'')) =
   (\<exists>c. ambient = Some c \<and> kind c \<noteq> StartWorkflowContext \<and> kind c \<noteq> DecisionContext)"
proof (cases ambient)
  case None
  then show ?thesis
    by (simp add: WorkflowType_call_def get_context_def split: prod.splits)
next
  case (Some c)
  obtain class' instance' where ci: "class_and_instance = (class', instance')"
    by (cases class_and_instance)
  show ?thesis
  proof (cases "kind c = DecisionContext")
    case True
    have "snd (WorkflowType_call E (Some c) self (class', instance') input) \<noteq>
            Inl (NotImplementedError ''Unsupported context'')"
      using to_continue_as_new_dict_Inl [of E c self input "task_list (ctx_decider c)"]
        call_dumps_Inl [of E "wt_data_converter self" input]
      by (auto simp: WorkflowType_call_Decision [OF True] split: sum.splits)
    with True Some ci show ?thesis by simp
  next
    case False
    with Some ci show ?thesis
      by (simp add: WorkflowType_call_def get_context_def Let_def)
  qed
qed

text \<open>
  C10. A WorkflowType invoked in a Decision context whose decider has
  \<^verbatim>\<open>execution_started\<close> false returns \<^verbatim>\<open>None\<close>: no error is raised and nothing is
  delegated to the decider or the worker. The \<^verbatim>\<open>NotImplementedError\<close> of the
  unsupported context is raised exactly when there is a context and its kind is neither
  Start nor Decision, and then nothing is delegated either.
\<close>

theorem C10_not_started_returns_none:
  "(kind c = DecisionContext \<and> \<not> execution_started (ctx_decider c) \<longrightarrow>
      WorkflowType_call E (Some c) self class_and_instance input = ([], Inr RNone)) \<and>
   ((snd (WorkflowType_call E ambient self class_and_instance input) =
       Inl (NotImplementedError ''Unsupported context'')) =
    (\<exists>c'. ambient = Some c' \<and> kind c' \<noteq> StartWorkflowContext \<and> kind c' \<noteq> DecisionContext)) \<and>
   (snd (WorkflowType_call E ambient self class_and_instance input) =
       Inl (NotImplementedError ''Unsupported context'') \<longrightarrow>
    fst (WorkflowType_call E ambient self class_and_instance input) = [])"
proof (intro conjI impI)
  assume "kind c = DecisionContext \<and> \<not> execution_started (ctx_decider c)"
  then show "WorkflowType_call E (Some c) self class_and_instance input = ([], Inr RNone)"
    by (cases class_and_instance) (simp add: WorkflowType_call_Decision)
next
  show "(snd (WorkflowType_call E ambient self class_and_instance input) =
       Inl (NotImplementedError ''Unsupported context'')) =
    (\<exists>c'. ambient = Some c' \<and> kind c' \<noteq> StartWorkflowContext \<and> kind c' \<noteq> DecisionContext)"
    by (rule WorkflowType_call_unsupported)
next
  assume "snd (WorkflowType_call E ambient self class_and_instance input) =
       Inl (NotImplementedError ''Unsupported context'')"
  then obtain c' where "ambient = Some c'" "kind c' \<noteq> StartWorkflowContext"
      "kind c' \<noteq> DecisionContext"
    using WorkflowType_call_unsupported [of E ambient self class_and_instance input] by blast
  then show "fst (WorkflowType_call E ambient self class_and_instance input) = []"
    by (cases class_and_instance) (simp add: WorkflowType_call_def get_context_def Let_def)
qed

theorem C10_witness:
  "kind (example_context DecisionContext False []) = DecisionContext \<and>
   \<not> execution_started (ctx_decider (example_context DecisionContext False [])) \<and>
   WorkflowType_call example_env (Some (example_context DecisionContext False []))
       (example_WorkflowType PNone (PStr ''1.0'') (PStr ''USE_WORKER_TASK_LIST''))
       (7, Some 2) ([], []) = ([], Inr RNone) \<and>
   WorkflowType_call example_env (Some (example_context ActivityContext False []))
       (example_WorkflowType PNone (PStr ''1.0'') (PStr ''USE_WORKER_TASK_LIST''))
       (7, Some 2) ([], []) = ([], Inl (NotImplementedError ''Unsupported context''))"
proof -
  let ?wt = "example_WorkflowType PNone (PStr ''1.0'') (PStr ''USE_WORKER_TASK_LIST'')"
  have k: "kind (example_context DecisionContext False []) = DecisionContext"
    and n: "\<not> execution_started (ctx_decider (example_context DecisionContext False []))"
    and a: "kind (example_context ActivityContext False []) \<noteq> StartWorkflowContext"
      "kind (example_context ActivityContext False []) \<noteq> DecisionContext"
    by (simp_all add: example_context_def)
  note t = C10_not_started_returns_none [where E = example_env and self = ?wt
      and class_and_instance = "(7, Some 2)" and input = "([], [])"]
  from t [where c = "example_context DecisionContext False []"] k n
  have 1: "WorkflowType_call example_env (Some (example_context DecisionContext False []))
             ?wt (7, Some 2) ([], []) = ([], Inr RNone)"
    by blast
  from t [where ambient = "Some (example_context ActivityContext False [])"] a
  have "snd (WorkflowType_call example_env (Some (example_context ActivityContext False []))
               ?wt (7, Some 2) ([], [])) = Inl (NotImplementedError ''Unsupported context'') \<and>
        fst (WorkflowType_call example_env (Some (example_context ActivityContext False []))
               ?wt (7, Some 2) ([], [])) = []"
    by blast
  then have 2: "WorkflowType_call example_env (Some (example_context ActivityContext False []))
               ?wt (7, Some 2) ([], []) = ([], Inl (NotImplementedError ''Unsupported context''))"
    by (simp add: prod_eq_iff)
  from k n 1 2 show ?thesis by simp
qed

text \<open>
  C1, as amended. In a Decision context whose decider has \<^verbatim>\<open>execution_started\<close> true:
  when the call target differs from the instance that is executing, the invocation
  builds a new local handle with the execution identity (None, None) and the converter
  of the descriptor, delegates one start-child-workflow request to the decider and
  returns what the decider returned for it, never the handle or a result of its own;
  when the call target is the executing instance, it builds the continue-as-new map
  with the task list of the decider and delegates one continue-as-new request, whose
  result it returns. An error raised while the map is built is passed on, and then
  nothing is delegated. With \<^verbatim>\<open>execution_started\<close> false nothing of this happens.
\<close>

theorem C1_decision_dispatch:
  assumes "kind c = DecisionContext" and "execution_started (ctx_decider c)"
  shows
    "(workflow c \<noteq> instance' \<longrightarrow>
        WorkflowType_call E (Some c) self (class', instance') input =
          ([HandleStartChildWorkflowExecution self
              \<lparr>wi_class = class', wi_workflow_execution = (PNone, PNone),
               wi_data_converter = wt_data_converter self\<rparr> input],
           Inr (RReturned (HandleStartChildWorkflowExecution self
              \<lparr>wi_class = class', wi_workflow_execution = (PNone, PNone),
               wi_data_converter = wt_data_converter self\<rparr> input)))) \<and>
     (workflow c = instance' \<longrightarrow>
        (\<forall>d. WorkflowType_to_continue_as_new_dict E (Some c) self input
                (task_list (ctx_decider c)) = Inr d \<longrightarrow>
             WorkflowType_call E (Some c) self (class', instance') input =
               ([ContinueAsNewWorkflowExecution d],
                Inr (RReturned (ContinueAsNewWorkflowExecution d)))) \<and>
        (\<forall>e. WorkflowType_to_continue_as_new_dict E (Some c) self input
                (task_list (ctx_decider c)) = Inl e \<longrightarrow>
             WorkflowType_call E (Some c) self (class', instance') input = ([], Inl e)) \<and>
        (\<forall>s. call_dumps E (wt_data_converter self) input = Inr s \<longrightarrow>
             (\<exists>d. WorkflowType_call E (Some c) self (class', instance') input =
                    ([ContinueAsNewWorkflowExecution d],
                     Inr (RReturned (ContinueAsNewWorkflowExecution d))))))"
proof -
  have ok: "\<exists>d. WorkflowType_to_continue_as_new_dict E (Some c) self input
                  (task_list (ctx_decider c)) = Inr d"
    if "call_dumps E (wt_data_converter self) input = Inr s" for s
    using to_decision_dict_Inr [OF that, of c PNone "task_list (ctx_decider c)" PNone]
    by (auto simp: WorkflowType_to_continue_as_new_dict_def)
  show ?thesis
    using assms ok by (auto simp: WorkflowType_call_Decision)
qed

theorem C1_witness:
  "kind (example_context DecisionContext True []) = DecisionContext \<and>
   execution_started (ctx_decider (example_context DecisionContext True [])) \<and>
   workflow (example_context DecisionContext True []) \<noteq> Some 2 \<and>
   WorkflowType_call example_env (Some (example_context DecisionContext True []))
       (example_WorkflowType PNone (PStr ''1.0'') (PStr ''USE_WORKER_TASK_LIST''))
       (7, Some 2) ([], []) =
     ([HandleStartChildWorkflowExecution
         (example_WorkflowType PNone (PStr ''1.0'') (PStr ''USE_WORKER_TASK_LIST''))
         \<lparr>wi_class = 7, wi_workflow_execution = (PNone, PNone),
          wi_data_converter = Some JSONDataConverter\<rparr> ([], [])],
      Inr (RReturned (HandleStartChildWorkflowExecution
         (example_WorkflowType PNone (PStr ''1.0'') (PStr ''USE_WORKER_TASK_LIST''))
         \<lparr>wi_class = 7, wi_workflow_execution = (PNone, PNone),
          wi_data_converter = Some JSONDataConverter\<rparr> ([], [])))) \<and>
   workflow (example_context DecisionContext True []) = Some 1 \<and>
   (\<exists>d. WorkflowType_call example_env (Some (example_context DecisionContext True []))
       (example_WorkflowType PNone (PStr ''1.0'') (PStr ''USE_WORKER_TASK_LIST''))
       (7, Some 1) ([], []) =
     ([ContinueAsNewWorkflowExecution d], Inr (RReturned (ContinueAsNewWorkflowExecution d))))"
proof -
  let ?c = "example_context DecisionContext True []"
  let ?wt = "example_WorkflowType PNone (PStr ''1.0'') (PStr ''USE_WORKER_TASK_LIST'')"
  have k: "kind ?c = DecisionContext" and st: "execution_started (ctx_decider ?c)"
    and w: "workflow ?c = Some 1"
    by (simp_all add: example_context_def)
  have conv: "wt_data_converter ?wt = Some JSONDataConverter"
    by (simp add: example_WorkflowType_def)
  have dumps_ok: "call_dumps example_env (wt_data_converter ?wt) ([], []) = Inr ''[[], {}]''"
    by (simp add: conv call_dumps_def example_env_def)
  note child = C1_decision_dispatch [OF k st, of "Some 2" example_env ?wt 7 "([], [])"]
  note cont = C1_decision_dispatch [OF k st, of "Some 1" example_env ?wt 7 "([], [])"]
  from child w conv have 1:
    "WorkflowType_call example_env (Some ?c) ?wt (7, Some 2) ([], []) =
       ([HandleStartChildWorkflowExecution ?wt
           \<lparr>wi_class = 7, wi_workflow_execution = (PNone, PNone),
            wi_data_converter = Some JSONDataConverter\<rparr> ([], [])],
        Inr (RReturned (HandleStartChildWorkflowExecution ?wt
           \<lparr>wi_class = 7, wi_workflow_execution = (PNone, PNone),
            wi_data_converter = Some JSONDataConverter\<rparr> ([], []))))"
    by simp
  from cont w dumps_ok have 2:
    "\<exists>d. WorkflowType_call example_env (Some ?c) ?wt (7, Some 1) ([], []) =
       ([ContinueAsNewWorkflowExecution d], Inr (RReturned (ContinueAsNewWorkflowExecution d)))"
    by blast
  from k st w 1 2 show ?thesis by simp
qed

theorem C1_counterexample:
  "kind (example_context DecisionContext False []) = DecisionContext \<and>
   workflow (example_context DecisionContext False []) \<noteq> Some 2 \<and>
   WorkflowType_call example_env (Some (example_context DecisionContext False []))
       (example_WorkflowType PNone (PStr ''1.0'') (PStr ''USE_WORKER_TASK_LIST''))
       (7, Some 2) ([], []) = ([], Inr RNone)"
  by (simp add: WorkflowType_call_def get_context_def example_context_def)

section \<open>SignalType: invocation\<close>

lemma SignalType_call_no_converter:
  "st_data_converter self = None \<Longrightarrow>
     SignalType_call E ambient self input = ([], Inl (AttributeError ''dumps''))"
  by (simp add: SignalType_call_def call_dumps_def)

text \<open>
  What the invocation does when the descriptor holds a converter whose \<^verbatim>\<open>dumps\<close>
  returns, in a Start or an Activity context. With \<^verbatim>\<open>workflow_execution\<close> unset it
  fails with the \<^verbatim>\<open>AttributeError\<close> of the lookup of \<^verbatim>\<open>workflow_id\<close> on
  \<^verbatim>\<open>None\<close> and delegates nothing. With a bound execution it delegates exactly one
  signal-workflow-execution request, which carries the domain of the worker of the
  context, the signal name, the bound workflow id and run id and the serialized text,
  and it returns \<^verbatim>\<open>None\<close>.
\<close>

lemma SignalType_call_with_converter:
  assumes "kind c = StartWorkflowContext \<or> kind c = ActivityContext"
    and "st_data_converter self = Some converter"
    and "dumps E converter input = Inr s"
  shows
    "(st_workflow_execution self = None \<longrightarrow>
        SignalType_call E (Some c) self input = ([], Inl (AttributeError ''workflow_id''))) \<and>
     (\<forall>workflow_id run_id. st_workflow_execution self = Some (workflow_id, run_id) \<longrightarrow>
        SignalType_call E (Some c) self input =
          ([SignalWorkflowExecutionOp (domain (ctx_worker c)) (st_name self)
              workflow_id run_id s],
           Inr RNone))"
  using assms by (auto simp: SignalType_call_def call_dumps_def get_context_def)

text \<open>
  The same on an example, with a converter whose output is made of the positional
  arguments it is given.
\<close>

lemma SignalType_call_with_converter_example:
  "SignalType_call
       (example_env\<lparr>dumps := (\<lambda>c input. Inr (concat (map py_str (fst input))))\<rparr>)
       (Some (example_context ActivityContext True []))
       ((SignalType_init (PStr ''sig'') (Some JSONDataConverter) None)
          \<lparr>st_workflow_execution := Some (PStr ''wf-1'', PStr ''run-1'')\<rparr>)
       ([PStr ''x'', PStr ''y''], []) =
     ([SignalWorkflowExecutionOp (PStr ''dom-1'') (PStr ''sig'') (PStr ''wf-1'') (PStr ''run-1'')
         ''xy''], Inr RNone) \<and>
   SignalType_call
       (example_env\<lparr>dumps := (\<lambda>c input. Inr (concat (map py_str (fst input))))\<rparr>)
       (Some (example_context ActivityContext True []))
       (SignalType_init (PStr ''sig'') (Some JSONDataConverter) None)
       ([PStr ''x'', PStr ''y''], []) =
     ([], Inl (AttributeError ''workflow_id''))"
  by (simp add: SignalType_call_def call_dumps_def get_context_def SignalType_init_def
      example_context_def example_env_def py_str_def)

text \<open>
  C3. The claim has the invocation of a SignalType with the bound execution (wf-1, run-1)
  in an Activity context succeed and issue one signal request. The descriptor that the
  constructor builds when the converter argument is left out holds no converter: unlike
  the constructors of the two other descriptors, it does not put the default JSON
  converter in place of \<^verbatim>\<open>None\<close>. Invoked with that bound execution in an Activity
  context, whatever the collaborators and the arguments are, it raises the
  \<^verbatim>\<open>AttributeError\<close> of the lookup of \<^verbatim>\<open>dumps\<close> on \<^verbatim>\<open>None\<close>, before the context or
  the target is looked at, and no signal request is issued.
\<close>

theorem C3_default_converter_fails:
  "st_data_converter (SignalType_init (PStr ''sig'') None None) = None \<and>
   st_workflow_execution
       ((SignalType_init (PStr ''sig'') None None)
          \<lparr>st_workflow_execution := Some (PStr ''wf-1'', PStr ''run-1'')\<rparr>) =
     Some (PStr ''wf-1'', PStr ''run-1'') \<and>
   kind (example_context ActivityContext True []) = ActivityContext \<and>
   SignalType_call E (Some (example_context ActivityContext True []))
       ((SignalType_init (PStr ''sig'') None None)
          \<lparr>st_workflow_execution := Some (PStr ''wf-1'', PStr ''run-1'')\<rparr>) input =
     ([], Inl (AttributeError ''dumps''))"
  by (simp add: SignalType_call_no_converter SignalType_init_def example_context_def)

section \<open>WorkflowType: the task list of the decision map\<close>

lemma to_decision_dict_task_list:
  assumes "call_dumps E (wt_data_converter self) input = Inr s"
  shows "\<exists>d. WorkflowType_to_decision_dict E (Some c) self input workflow_id worker_task_list
              domain' = Inr d \<and>
           map_of d ''task_list'' =
             (case map_of (rev (workflow_options_overrides c)) ''task_list'' of
                Some v \<Rightarrow> Some v
              | None \<Rightarrow>
                  Some (Dict [(''name'',
                    PStr (str_or_NONE
                      (if wt_task_list self = USE_WORKER_TASK_LIST E then worker_task_list
                       else wt_task_list self)))]))"
  using assms
  by (simp add: WorkflowType_to_decision_dict_def get_context_def Let_def map_of_dict_update
      map_add_def split: option.splits)

lemma map_of_rev_distinct:
  "distinct (map fst items) \<Longrightarrow> (k, v) \<in> set items \<Longrightarrow> map_of (rev items) k = Some v"
  by (rule map_of_is_SomeI) (simp_all add: rev_map [symmetric])

text \<open>
  C5, as amended. Let a WorkflowType be asked for its decision map inside an active
  context, with a converter whose \<^verbatim>\<open>dumps\<close> returns. If the per-call workflow-option
  overrides of the context have no \<^verbatim>\<open>task_list\<close> entry, the \<^verbatim>\<open>name\<close> of the
  \<^verbatim>\<open>task_list\<close> of the map is the string form of the supplied worker task list when
  the descriptor's task list is the use-worker's-default sentinel (so tl-A for the
  worker task list tl-A), and the string form of the descriptor's own task list
  otherwise (so tl-B for an explicit tl-B, the worker task list being ignored). If the
  overrides have a \<^verbatim>\<open>task_list\<close> entry, that entry is the \<^verbatim>\<open>task_list\<close> of the map.
\<close>

theorem C5_task_list_resolution:
  assumes "call_dumps E (wt_data_converter self) input = Inr s"
  shows
    "\<exists>d. WorkflowType_to_decision_dict E (Some c) self input workflow_id worker_task_list
            domain' = Inr d \<and>
       (map_of (workflow_options_overrides c) ''task_list'' = None \<longrightarrow>
          (wt_task_list self = USE_WORKER_TASK_LIST E \<longrightarrow>
             map_of d ''task_list'' =
               Some (Dict [(''name'', PStr (str_or_NONE worker_task_list))])) \<and>
          (wt_task_list self = USE_WORKER_TASK_LIST E \<and> worker_task_list = PStr a \<longrightarrow>
             map_of d ''task_list'' = Some (Dict [(''name'', PStr a)])) \<and>
          (wt_task_list self \<noteq> USE_WORKER_TASK_LIST E \<longrightarrow>
             map_of d ''task_list'' =
               Some (Dict [(''name'', PStr (str_or_NONE (wt_task_list self)))])) \<and>
          (wt_task_list self \<noteq> USE_WORKER_TASK_LIST E \<and> wt_task_list self = PStr b \<longrightarrow>
             map_of d ''task_list'' = Some (Dict [(''name'', PStr b)]))) \<and>
       (\<forall>v. distinct (map fst (workflow_options_overrides c)) \<and>
            (''task_list'', v) \<in> set (workflow_options_overrides c) \<longrightarrow>
          map_of d ''task_list'' = Some v)"
proof -
  from to_decision_dict_task_list [OF assms, of c workflow_id worker_task_list domain']
  obtain d where d: "WorkflowType_to_decision_dict E (Some c) self input workflow_id
        worker_task_list domain' = Inr d"
    and look: "map_of d ''task_list'' =
       (case map_of (rev (workflow_options_overrides c)) ''task_list'' of
          Some v \<Rightarrow> Some v
        | None \<Rightarrow>
            Some (Dict [(''name'',
              PStr (str_or_NONE
                (if wt_task_list self = USE_WORKER_TASK_LIST E then worker_task_list
                 else wt_task_list self)))]))"
    by blast
  have none: "map_of d ''task_list'' =
       Some (Dict [(''name'',
         PStr (str_or_NONE
           (if wt_task_list self = USE_WORKER_TASK_LIST E then worker_task_list
            else wt_task_list self)))])"
    if "map_of (workflow_options_overrides c) ''task_list'' = None"
    using look map_of_rev_None [OF that] by simp
  have some: "map_of d ''task_list'' = Some v"
    if "distinct (map fst (workflow_options_overrides c))"
      and "(''task_list'', v) \<in> set (workflow_options_overrides c)" for v
    using look map_of_rev_distinct [OF that] by simp
  have str: "str_or_NONE (PStr x) = x" for x
    by (simp add: str_or_NONE_def py_str_def)
  show ?thesis
  proof (intro exI [of _ d] conjI impI allI)
    show "WorkflowType_to_decision_dict E (Some c) self input workflow_id worker_task_list
            domain' = Inr d"
      by (rule d)
  next
    assume "map_of (workflow_options_overrides c) ''task_list'' = None"
      and "wt_task_list self = USE_WORKER_TASK_LIST E"
    then show "map_of d ''task_list'' =
        Some (Dict [(''name'', PStr (str_or_NONE worker_task_list))])"
      using none by simp
  next
    assume "map_of (workflow_options_overrides c) ''task_list'' = None"
      and "wt_task_list self = USE_WORKER_TASK_LIST E \<and> worker_task_list = PStr a"
    then show "map_of d ''task_list'' = Some (Dict [(''name'', PStr a)])"
      using none str by simp
  next
    assume "map_of (workflow_options_overrides c) ''task_list'' = None"
      and "wt_task_list self \<noteq> USE_WORKER_TASK_LIST E"
    then show "map_of d ''task_list'' =
        Some (Dict [(''name'', PStr (str_or_NONE (wt_task_list self)))])"
      using none by simp
  next
    assume "map_of (workflow_options_overrides c) ''task_list'' = None"
      and "wt_task_list self \<noteq> USE_WORKER_TASK_LIST E \<and> wt_task_list self = PStr b"
    then show "map_of d ''task_list'' = Some (Dict [(''name'', PStr b)])"
      using none str by auto
  next
    fix v
    assume "distinct (map fst (workflow_options_overrides c)) \<and>
            (''task_list'', v) \<in> set (workflow_options_overrides c)"
    then show "map_of d ''task_list'' = Some v"
      using some by blast
  qed
qed

lemma example_dumps:
  "call_dumps example_env (wt_data_converter (example_WorkflowType name version tlist)) input =
     Inr ''[[], {}]''"
  by (simp add: call_dumps_def example_env_def example_WorkflowType_def)

theorem C5_witness:
  "(\<exists>d. WorkflowType_to_decision_dict example_env (Some (example_context DecisionContext True []))
          (example_WorkflowType PNone (PStr ''1.0'') (PStr ''USE_WORKER_TASK_LIST''))
          ([], []) PNone (PStr ''tl-A'') PNone = Inr d \<and>
        map_of d ''task_list'' = Some (Dict [(''name'', PStr ''tl-A'')])) \<and>
   (\<exists>d. WorkflowType_to_decision_dict example_env (Some (example_context DecisionContext True []))
          (example_WorkflowType PNone (PStr ''1.0'') (PStr ''tl-B''))
          ([], []) PNone (PStr ''tl-A'') PNone = Inr d \<and>
        map_of d ''task_list'' = Some (Dict [(''name'', PStr ''tl-B'')]))"
proof -
  let ?c = "example_context DecisionContext True []"
  let ?s = "example_WorkflowType PNone (PStr ''1.0'') (PStr ''USE_WORKER_TASK_LIST'')"
  let ?b = "example_WorkflowType PNone (PStr ''1.0'') (PStr ''tl-B'')"
  have ov: "map_of (workflow_options_overrides ?c) ''task_list'' = None"
    by (simp add: example_context_def)
  have s: "wt_task_list ?s = USE_WORKER_TASK_LIST example_env"
    by (simp add: example_WorkflowType_def example_env_def)
  have b: "wt_task_list ?b \<noteq> USE_WORKER_TASK_LIST example_env" "wt_task_list ?b = PStr ''tl-B''"
    by (simp_all add: example_WorkflowType_def example_env_def)
  note ds = example_dumps [of PNone "PStr ''1.0''" "PStr ''USE_WORKER_TASK_LIST''" "([], [])"]
  note db = example_dumps [of PNone "PStr ''1.0''" "PStr ''tl-B''" "([], [])"]
  from C5_task_list_resolution [OF ds, where c = ?c and workflow_id = PNone
      and worker_task_list = "PStr ''tl-A''" and domain' = PNone and a = "''tl-A''"] ov s
  have 1: "\<exists>d. WorkflowType_to_decision_dict example_env (Some ?c) ?s ([], []) PNone
                 (PStr ''tl-A'') PNone = Inr d \<and>
               map_of d ''task_list'' = Some (Dict [(''name'', PStr ''tl-A'')])"
    by blast
  from C5_task_list_resolution [OF db, where c = ?c and workflow_id = PNone
      and worker_task_list = "PStr ''tl-A''" and domain' = PNone and b = "''tl-B''"] ov b
  have 2: "\<exists>d. WorkflowType_to_decision_dict example_env (Some ?c) ?b ([], []) PNone
                 (PStr ''tl-A'') PNone = Inr d \<and>
               map_of d ''task_list'' = Some (Dict [(''name'', PStr ''tl-B'')])"
    by blast
  from 1 2 show ?thesis by simp
qed

theorem C5_counterexample:
  "wt_task_list (example_WorkflowType PNone (PStr ''1.0'') (PStr ''USE_WORKER_TASK_LIST'')) =
     USE_WORKER_TASK_LIST example_env \<and>
   WorkflowType_to_decision_dict example_env
       (Some (example_context DecisionContext True
          [(''task_list'', Dict [(''name'', PStr ''tl-X'')])]))
       (example_WorkflowType PNone (PStr ''1.0'') (PStr ''USE_WORKER_TASK_LIST''))
       ([], []) PNone (PStr ''tl-A'') PNone =
     Inr [(''workflow_type'', Dict [(''version'', PStr ''1.0''), (''name'', PNone)]),
          (''task_list'', Dict [(''name'', PStr ''tl-X'')]),
          (''child_policy'', Scalar (PStr ''TERMINATE'')),
          (''execution_start_to_close_timeout'', Scalar (PStr ''3600'')),
          (''task_start_to_close_timeout'', Scalar (PStr ''30'')),
          (''input'', Scalar (PStr ''[[], {}]''))]"
  by (simp add: WorkflowType_to_decision_dict_def call_dumps_def get_context_def
      example_env_def example_WorkflowType_def example_context_def
      str_or_NONE_def py_str_def str_nat.simps digit_char_def)

section \<open>WorkflowType: the continue-as-new map\<close>

lemma continue_as_new_keys_set:
  "set continue_as_new_keys =
     {''task_start_to_close_timeout'', ''child_policy'', ''task_list'',
      ''execution_start_to_close_timeout'', ''version'', ''input''}"
  by (simp add: continue_as_new_keys_def)

lemma not_continue_as_new_keys:
  "''workflow_type'' \<notin> set continue_as_new_keys"
  "''domain'' \<notin> set continue_as_new_keys"
  "''workflow_id'' \<notin> set continue_as_new_keys"
  by (simp_all add: continue_as_new_keys_def)

text \<open>
  C6. The keys of a map that \<^verbatim>\<open>to_continue_as_new_dict\<close> returns are among
  \<^verbatim>\<open>task_start_to_close_timeout\<close>, \<^verbatim>\<open>child_policy\<close>, \<^verbatim>\<open>task_list\<close>,
  \<^verbatim>\<open>execution_start_to_close_timeout\<close>, \<^verbatim>\<open>version\<close> and \<^verbatim>\<open>input\<close>, and
  \<^verbatim>\<open>workflow_type\<close>, \<^verbatim>\<open>domain\<close> and \<^verbatim>\<open>workflow_id\<close> are never among them. Whenever
  the decision map is built, the continue-as-new map is returned too: its keys are the
  listed keys that the decision map has, with the values of the decision map, so that a
  listed key the decision map lacks is left out and raises nothing. The only errors are
  those of building the decision map.
\<close>

theorem C6_continue_as_new_keys:
  "(\<forall>m. WorkflowType_to_continue_as_new_dict E ambient self input worker_task_list = Inr m \<longrightarrow>
      fst ` set m \<subseteq>
        {''task_start_to_close_timeout'', ''child_policy'', ''task_list'',
         ''execution_start_to_close_timeout'', ''version'', ''input''} \<and>
      ''workflow_type'' \<notin> fst ` set m \<and> ''domain'' \<notin> fst ` set m \<and>
      ''workflow_id'' \<notin> fst ` set m) \<and>
   (\<forall>d. WorkflowType_to_decision_dict E ambient self input PNone worker_task_list PNone = Inr d
      \<longrightarrow>
      (\<exists>m. WorkflowType_to_continue_as_new_dict E ambient self input worker_task_list = Inr m \<and>
           fst ` set m =
             {''task_start_to_close_timeout'', ''child_policy'', ''task_list'',
              ''execution_start_to_close_timeout'', ''version'', ''input''} \<inter> fst ` set d \<and>
           (\<forall>k. k \<in> fst ` set m \<longrightarrow> map_of m k = map_of d k))) \<and>
   (\<forall>e. (WorkflowType_to_continue_as_new_dict E ambient self input worker_task_list = Inl e) =
        (WorkflowType_to_decision_dict E ambient self input PNone worker_task_list PNone = Inl e))"
proof (intro conjI allI impI)
  fix m
  assume m: "WorkflowType_to_continue_as_new_dict E ambient self input worker_task_list = Inr m"
  then obtain d where "m = copy_keys continue_as_new_keys d []"
    by (auto simp: WorkflowType_to_continue_as_new_dict_def split: sum.splits)
  then have keys: "fst ` set m = set continue_as_new_keys \<inter> fst ` set d"
    by (simp add: keys_copy_keys)
  then show "fst ` set m \<subseteq>
        {''task_start_to_close_timeout'', ''child_policy'', ''task_list'',
         ''execution_start_to_close_timeout'', ''version'', ''input''}"
    by (simp add: continue_as_new_keys_set)
  from keys not_continue_as_new_keys
  show "''workflow_type'' \<notin> fst ` set m" "''domain'' \<notin> fst ` set m"
    "''workflow_id'' \<notin> fst ` set m"
    by blast+
next
  fix d
  assume d: "WorkflowType_to_decision_dict E ambient self input PNone worker_task_list PNone
               = Inr d"
  let ?m = "copy_keys continue_as_new_keys d []"
  have 1: "WorkflowType_to_continue_as_new_dict E ambient self input worker_task_list = Inr ?m"
    using d by (simp add: WorkflowType_to_continue_as_new_dict_def)
  have 2: "fst ` set ?m =
      {''task_start_to_close_timeout'', ''child_policy'', ''task_list'',
       ''execution_start_to_close_timeout'', ''version'', ''input''} \<inter> fst ` set d"
    by (simp add: keys_copy_keys continue_as_new_keys_set)
  have "map_of ?m k = map_of d k" if "k \<in> fst ` set ?m" for k
  proof -
    from that have "k \<in> set continue_as_new_keys"
      by (simp add: keys_copy_keys)
    then show ?thesis
      by (simp add: map_of_copy_keys)
  qed
  with 1 2
  show "\<exists>m. WorkflowType_to_continue_as_new_dict E ambient self input worker_task_list = Inr m \<and>
           fst ` set m =
             {''task_start_to_close_timeout'', ''child_policy'', ''task_list'',
              ''execution_start_to_close_timeout'', ''version'', ''input''} \<inter> fst ` set d \<and>
           (\<forall>k. k \<in> fst ` set m \<longrightarrow> map_of m k = map_of d k)"
    by blast
next
  fix e
  show "(WorkflowType_to_continue_as_new_dict E ambient self input worker_task_list = Inl e) =
        (WorkflowType_to_decision_dict E ambient self input PNone worker_task_list PNone = Inl e)"
    by (simp add: WorkflowType_to_continue_as_new_dict_def split: sum.splits)
qed

lemma example_decision_dict:
  "WorkflowType_to_decision_dict example_env
       (Some (example_context DecisionContext True
          [(''domain'', Scalar (PStr ''dom-2'')), (''workflow_id'', Scalar (PStr ''wf-9''))]))
       (example_WorkflowType PNone (PStr ''1.0'') (PStr ''USE_WORKER_TASK_LIST''))
       ([], []) PNone (PStr ''tl-A'') PNone =
     Inr [(''workflow_type'', Dict [(''version'', PStr ''1.0''), (''name'', PNone)]),
          (''task_list'', Dict [(''name'', PStr ''tl-A'')]),
          (''child_policy'', Scalar (PStr ''TERMINATE'')),
          (''execution_start_to_close_timeout'', Scalar (PStr ''3600'')),
          (''task_start_to_close_timeout'', Scalar (PStr ''30'')),
          (''input'', Scalar (PStr ''[[], {}]'')),
          (''domain'', Scalar (PStr ''dom-2'')),
          (''workflow_id'', Scalar (PStr ''wf-9''))]"
  by (simp add: WorkflowType_to_decision_dict_def call_dumps_def get_context_def
      example_env_def example_WorkflowType_def example_context_def
      str_or_NONE_def py_str_def str_nat.simps digit_char_def)

lemma example_continue_as_new_dict:
  "WorkflowType_to_continue_as_new_dict example_env
       (Some (example_context DecisionContext True
          [(''domain'', Scalar (PStr ''dom-2'')), (''workflow_id'', Scalar (PStr ''wf-9''))]))
       (example_WorkflowType PNone (PStr ''1.0'') (PStr ''USE_WORKER_TASK_LIST''))
       ([], []) (PStr ''tl-A'') =
     Inr [(''task_start_to_close_timeout'', Scalar (PStr ''30'')),
          (''child_policy'', Scalar (PStr ''TERMINATE'')),
          (''task_list'', Dict [(''name'', PStr ''tl-A'')]),
          (''execution_start_to_close_timeout'', Scalar (PStr ''3600'')),
          (''input'', Scalar (PStr ''[[], {}]''))]"
  by (simp add: WorkflowType_to_continue_as_new_dict_def example_decision_dict
      continue_as_new_keys_def)

theorem C6_witness:
  "WorkflowType_to_continue_as_new_dict example_env
       (Some (example_context DecisionContext True
          [(''domain'', Scalar (PStr ''dom-2'')), (''workflow_id'', Scalar (PStr ''wf-9''))]))
       (example_WorkflowType PNone (PStr ''1.0'') (PStr ''USE_WORKER_TASK_LIST''))
       ([], []) (PStr ''tl-A'') =
     Inr [(''task_start_to_close_timeout'', Scalar (PStr ''30'')),
          (''child_policy'', Scalar (PStr ''TERMINATE'')),
          (''task_list'', Dict [(''name'', PStr ''tl-A'')]),
          (''execution_start_to_close_timeout'', Scalar (PStr ''3600'')),
          (''input'', Scalar (PStr ''[[], {}]''))] \<and>
   fst ` set [(''task_start_to_close_timeout'', Scalar (PStr ''30'')),
          (''child_policy'', Scalar (PStr ''TERMINATE'')),
          (''task_list'', Dict [(''name'', PStr ''tl-A'')]),
          (''execution_start_to_close_timeout'', Scalar (PStr ''3600'')),
          (''input'', Scalar (PStr ''[[], {}]''))] \<subseteq>
     {''task_start_to_close_timeout'', ''child_policy'', ''task_list'',
      ''execution_start_to_close_timeout'', ''version'', ''input''} \<and>
   ''version'' \<notin> fst ` set [(''task_start_to_close_timeout'', Scalar (PStr ''30'')),
          (''child_policy'', Scalar (PStr ''TERMINATE'')),
          (''task_list'', Dict [(''name'', PStr ''tl-A'')]),
          (''execution_start_to_close_timeout'', Scalar (PStr ''3600'')),
          (''input'', Scalar (PStr ''[[], {}]''))]"
proof -
  let ?m = "[(''task_start_to_close_timeout'', Scalar (PStr ''30'')),
          (''child_policy'', Scalar (PStr ''TERMINATE'')),
          (''task_list'', Dict [(''name'', PStr ''tl-A'')]),
          (''execution_start_to_close_timeout'', Scalar (PStr ''3600'')),
          (''input'', Scalar (PStr ''[[], {}]''))]"
  note t = C6_continue_as_new_keys [where E = example_env
      and ambient = "Some (example_context DecisionContext True
          [(''domain'', Scalar (PStr ''dom-2'')), (''workflow_id'', Scalar (PStr ''wf-9''))])"
      and self = "example_WorkflowType PNone (PStr ''1.0'') (PStr ''USE_WORKER_TASK_LIST'')"
      and input = "([], [])" and worker_task_list = "PStr ''tl-A''"]
  have imp: "WorkflowType_to_continue_as_new_dict example_env
       (Some (example_context DecisionContext True
          [(''domain'', Scalar (PStr ''dom-2'')), (''workflow_id'', Scalar (PStr ''wf-9''))]))
       (example_WorkflowType PNone (PStr ''1.0'') (PStr ''USE_WORKER_TASK_LIST''))
       ([], []) (PStr ''tl-A'') = Inr ?m \<longrightarrow>
     fst ` set ?m \<subseteq>
       {''task_start_to_close_timeout'', ''child_policy'', ''task_list'',
        ''execution_start_to_close_timeout'', ''version'', ''input''} \<and>
     ''workflow_type'' \<notin> fst ` set ?m \<and> ''domain'' \<notin> fst ` set ?m \<and>
     ''workflow_id'' \<notin> fst ` set ?m"
    using t [THEN conjunct1] by (rule spec)
  have sub: "fst ` set ?m \<subseteq>
       {''task_start_to_close_timeout'', ''child_policy'', ''task_list'',
        ''execution_start_to_close_timeout'', ''version'', ''input''}"
    using mp [OF imp example_continue_as_new_dict] by (rule conjunct1)
  have nv: "''version'' \<notin> fst ` set ?m"
    by simp
  show ?thesis
    by (intro conjI) (rule example_continue_as_new_dict, rule sub, rule nv)
qed

end
